theory Spec2Isabelle
  imports Complex_Main "HOL-Library.Sublist" "HOL-Library.Code_Target_Nat"
begin

section \<open>Python strings\<close>

text \<open>
  A Python \<open>str\<close> is a sequence of Unicode code points, so a string is modelled as a list
  of code points (\<open>len\<close>, \<open>strip\<close>, \<open>startswith\<close> and \<open>endswith\<close> all work on code
  points). \<open>u\<close> turns an ASCII literal into such a string; symbols beyond ASCII are
  written by their code point.
\<close>

type_synonym pystr = "nat list"

definition u :: "string \<Rightarrow> pystr" where
  "u s = map of_char s"

definition nl :: pystr where
  "nl = [10]"

definition dq :: pystr where
  "dq = [34]"

definition sq :: pystr where
  "sq = [39]"

definition cross_mark :: pystr where
  "cross_mark = [0x274C]"

definition warning_sign :: pystr where
  "warning_sign = [0x26A0, 0xFE0F]"

definition page_symbol :: pystr where
  "page_symbol = [0x1F4C4]"

definition chart_symbol :: pystr where
  "chart_symbol = [0x1F4CA]"

definition robot_symbol :: pystr where
  "robot_symbol = [0x1F916]"

definition question_mark_symbol :: pystr where
  "question_mark_symbol = [0x2753]"

text \<open>\<open>str.isspace\<close> for one code point: the characters \<open>str.strip()\<close> removes.\<close>

definition is_space :: "nat \<Rightarrow> bool" where
  "is_space c \<longleftrightarrow>
     (9 \<le> c \<and> c \<le> 13) \<or> (28 \<le> c \<and> c \<le> 32) \<or> c = 0x85 \<or> c = 0xA0 \<or> c = 0x1680 \<or>
     (0x2000 \<le> c \<and> c \<le> 0x200A) \<or> c = 0x2028 \<or> c = 0x2029 \<or> c = 0x202F \<or>
     c = 0x205F \<or> c = 0x3000"

definition strip :: "pystr \<Rightarrow> pystr" where
  "strip s = rev (dropWhile is_space (rev (dropWhile is_space s)))"

definition startswith :: "pystr \<Rightarrow> pystr \<Rightarrow> bool" where
  "startswith s p = prefix p s"

definition endswith :: "pystr \<Rightarrow> pystr \<Rightarrow> bool" where
  "endswith s p = suffix p s"

text \<open>\<open>sep.join(xs)\<close>.\<close>

fun join :: "pystr \<Rightarrow> pystr list \<Rightarrow> pystr" where
  "join sep [] = []"
| "join sep [x] = x"
| "join sep (x # y # ys) = x @ sep @ join sep (y # ys)"

text \<open>Truthiness of an optional string: \<open>None\<close> and the empty string are false.\<close>

fun truthy :: "pystr option \<Rightarrow> bool" where
  "truthy None = False"
| "truthy (Some s) = (s \<noteq> [])"

section \<open>Numbers and their formatting\<close>

text \<open>
  Column entries and their sums are exact rationals: the binary rounding of float64, NaN
  and infinities are outside the model. The format specifications \<open>:,.0f\<close> and \<open>:.1f\<close>
  round the exact value half to even, as Python does on the value it holds.
\<close>

function str_nat :: "nat \<Rightarrow> pystr" where
  "str_nat n = (if n < 10 then [48 + n] else str_nat (n div 10) @ [48 + n mod 10])"
  by pat_completeness auto
termination
  by (relation "measure id") auto

declare str_nat.simps [simp del]

definition round_half_even :: "rat \<Rightarrow> nat" where
  "round_half_even x =
     (let f = \<lfloor>x\<rfloor>; d = x - of_int f
      in nat (if d < 1 / 2 then f else if 1 / 2 < d then f + 1 else if even f then f else f + 1))"

fun commas_rev :: "pystr \<Rightarrow> pystr" where
  "commas_rev (a # b # c # d # ds) = a # b # c # 44 # commas_rev (d # ds)"
| "commas_rev ds = ds"

definition group_thousands :: "pystr \<Rightarrow> pystr" where
  "group_thousands ds = rev (commas_rev (rev ds))"

definition sign_str :: "rat \<Rightarrow> pystr" where
  "sign_str x = (if x < 0 then u ''-'' else [])"

text \<open>\<open>f"{x:,.0f}"\<close>\<close>

definition fmt_comma_0f :: "rat \<Rightarrow> pystr" where
  "fmt_comma_0f x = sign_str x @ group_thousands (str_nat (round_half_even \<bar>x\<bar>))"

text \<open>\<open>f"{x:.1f}"\<close>\<close>

definition fmt_1f :: "rat \<Rightarrow> pystr" where
  "fmt_1f x =
     (let m = round_half_even (\<bar>x\<bar> * 10)
      in sign_str x @ str_nat (m div 10) @ u ''.'' @ str_nat (m mod 10))"

section \<open>Configuration\<close>

definition EXCEL_FILE :: pystr where
  "EXCEL_FILE = u ''actuarial_sophisticated_sample.xlsx''"

definition LOSS_RATIO_THRESHOLD :: rat where
  "LOSS_RATIO_THRESHOLD = 75"

text \<open>\<open>f"{LOSS_RATIO_THRESHOLD}"\<close>: the \<open>repr\<close> of the float \<open>75.0\<close>.\<close>

definition LOSS_RATIO_THRESHOLD_str :: pystr where
  "LOSS_RATIO_THRESHOLD_str = u ''75.0''"

definition DEEPSEEK_PLACEHOLDER :: pystr where
  "DEEPSEEK_PLACEHOLDER = u ''YOUR_DEEPSEEK_API_KEY_HERE''"

section \<open>Exceptions, tables and the outside world\<close>

text \<open>
  The exception classes that the handlers of \<open>calculate_loss_ratio\<close> tell apart, each
  carrying \<open>str(e)\<close>. \<open>OtherException\<close> stands for every other subclass of
  \<open>Exception\<close>. Process signals (\<open>KeyboardInterrupt\<close>, \<open>SystemExit\<close>) are not
  failures of an operation and are not modelled.
\<close>

datatype exn =
    FileNotFoundError pystr
  | KeyError pystr
  | RequestException pystr
  | OtherException pystr

text \<open>
  A data frame as the code uses it: named columns of numbers (\<open>df.columns\<close>,
  \<open>df[col]\<close>) and a row count (\<open>len(df)\<close>). \<open>read_excel\<close> never yields two columns
  of one name (it renames duplicates), so a lookup by name is a lookup in a dictionary.
  The spreadsheet schema requires numeric columns; text cells are outside the model.
\<close>

record dataframe =
  series :: "(pystr \<times> rat list) list"
  nrows :: nat

definition df_columns :: "dataframe \<Rightarrow> pystr list" where
  "df_columns df = map fst (series df)"

text \<open>\<open>df[col]\<close> raises \<open>KeyError\<close> for an absent column; \<open>str(e)\<close> is the quoted key.\<close>

definition getitem :: "dataframe \<Rightarrow> pystr \<Rightarrow> exn + rat list" where
  "getitem df col =
     (case map_of (series df) col of
        None \<Rightarrow> Inl (KeyError (sq @ col @ sq))
      | Some s \<Rightarrow> Inr s)"

record http_response =
  http_error :: "pystr option"
  content :: "nat list"

text \<open>\<open>response.raise_for_status()\<close>: an \<open>HTTPError\<close> is a \<open>RequestException\<close>.\<close>

definition raise_for_status :: "http_response \<Rightarrow> exn + unit" where
  "raise_for_status response =
     (case http_error response of None \<Rightarrow> Inr () | Some m \<Rightarrow> Inl (RequestException m))"

text \<open>
  The collaborators the code calls: the HTTP client, the spreadsheet reader and the
  completion API, each of which returns a value or raises.
\<close>

record env =
  SLACK_BOT_TOKEN :: pystr
  DEEPSEEK_API_KEY :: pystr
  requests_get :: "pystr \<Rightarrow> (pystr \<times> pystr) list \<Rightarrow> exn + http_response"
  read_excel_bytes :: "nat list \<Rightarrow> exn + dataframe"
  read_excel_path :: "pystr \<Rightarrow> exn + dataframe"
  chat_completion :: "pystr \<Rightarrow> pystr \<Rightarrow> nat \<Rightarrow> exn + pystr"

section \<open>The ratio calculator\<close>

text \<open>
  The result dictionary: \<open>{'success': False, 'error': ...}\<close> or
  \<open>{'success': True, 'premium': ..., 'claims': ..., 'loss_ratio': ..., 'num_policies': ...}\<close>.
\<close>

datatype result =
    Failure (error: pystr)
  | Success (premium: rat) (claims: rat) (loss_ratio: rat) (num_policies: nat)

fun success :: "result \<Rightarrow> bool" where
  "success (Failure e) = False"
| "success (Success p c r n) = True"

text \<open>Lines 40 to 52 of \<open>calculate_loss_ratio\<close>: reading the table from its source.\<close>

definition load_table :: "env \<Rightarrow> pystr option \<Rightarrow> exn + dataframe" where
  "load_table env file_source =
     (if truthy file_source \<and> startswith (the file_source) (u ''http'') then
        (let headers = [(u ''Authorization'', u ''Bearer '' @ SLACK_BOT_TOKEN env)]
         in case requests_get env (the file_source) headers of
              Inl e \<Rightarrow> Inl e
            | Inr response \<Rightarrow>
                (case raise_for_status response of
                   Inl e \<Rightarrow> Inl e
                 | Inr _ \<Rightarrow> read_excel_bytes env (content response)))
      else if truthy file_source then read_excel_path env (the file_source)
      else read_excel_path env EXCEL_FILE)"

definition missing_columns_error :: "pystr list \<Rightarrow> pystr" where
  "missing_columns_error missing_columns =
     u ''Missing required columns: '' @ join (u '', '') missing_columns @
     u ''. File must have '' @ dq @ u ''Premium'' @ dq @ u '' and '' @ dq @ u ''Claims'' @ dq @
     u '' columns.''"

text \<open>Lines 54 to 76: validation of the columns, the totals and the ratio.\<close>

definition ratio_of_table :: "dataframe \<Rightarrow> exn + result" where
  "ratio_of_table df =
     (let required_columns = [u ''Premium'', u ''Claims''];
          missing_columns = filter (\<lambda>col. col \<notin> set (df_columns df)) required_columns
      in if missing_columns \<noteq> [] then Inr (Failure (missing_columns_error missing_columns))
         else
           (case getitem df (u ''Premium'') of
              Inl e \<Rightarrow> Inl e
            | Inr premium_col \<Rightarrow>
                (case getitem df (u ''Claims'') of
                   Inl e \<Rightarrow> Inl e
                 | Inr claims_col \<Rightarrow>
                     (let total_premium = sum_list premium_col;
                          total_claims = sum_list claims_col;
                          loss_ratio = (if total_premium > 0
                                        then (total_claims / total_premium) * 100 else 0)
                      in Inr (Success total_premium total_claims loss_ratio (nrows df))))))"

text \<open>
  Lines 78 to 85: the \<open>except\<close> clauses, tried in order. An exception that no clause
  matches would leave the function (\<open>Inl\<close>).
\<close>

fun except_clauses :: "exn \<Rightarrow> exn + result" where
  "except_clauses (FileNotFoundError m) = Inr (Failure (u ''Excel file not found''))"
| "except_clauses (KeyError m) = Inr (Failure (u ''Missing column in Excel: '' @ m))"
| "except_clauses (RequestException m) = Inr (Failure (u ''Failed to download file: '' @ m))"
| "except_clauses (OtherException m) = Inr (Failure (u ''Error reading file: '' @ m))"

definition try_block :: "env \<Rightarrow> pystr option \<Rightarrow> exn + result" where
  "try_block env file_source =
     (case load_table env file_source of Inl e \<Rightarrow> Inl e | Inr df \<Rightarrow> ratio_of_table df)"

definition calculate_loss_ratio :: "env \<Rightarrow> pystr option \<Rightarrow> exn + result" where
  "calculate_loss_ratio env file_source =
     (case try_block env file_source of Inl e \<Rightarrow> except_clauses e | Inr r \<Rightarrow> Inr r)"

section \<open>Commentary and message formatting\<close>

definition insight_prompt :: "rat \<Rightarrow> rat \<Rightarrow> rat \<Rightarrow> nat \<Rightarrow> pystr" where
  "insight_prompt p c r n =
     u ''You are an expert actuary analyzing insurance portfolio data.'' @ nl @ nl @
     u ''Analysis Results:'' @ nl @
     u ''- Total Premium: $'' @ fmt_comma_0f p @ nl @
     u ''- Total Claims: $'' @ fmt_comma_0f c @ nl @
     u ''- Loss Ratio: '' @ fmt_1f r @ u ''%'' @ nl @
     u ''- Number of Policies: '' @ str_nat n @ nl @
     u ''- Risk Threshold: '' @ LOSS_RATIO_THRESHOLD_str @ u ''%'' @ nl @ nl @
     u ''Provide a brief, professional 2-3 sentence insight about:'' @ nl @
     u ''1. What this loss ratio indicates about portfolio health'' @ nl @
     u ''2. Whether it'' @ sq @ u ''s above/below threshold and what that means'' @ nl @
     u ''3. One actionable recommendation'' @ nl @ nl @
     u ''Keep it concise and business-focused.''"

definition insight_system_message :: pystr where
  "insight_system_message =
     u ''You are an expert actuarial analyst providing concise, actionable insights.''"

text \<open>
  \<open>generate_ai_insights\<close>: \<open>None\<close> for a failed result and for any exception of the
  completion call, else the stripped text of the completion.
\<close>

definition generate_ai_insights :: "env \<Rightarrow> result \<Rightarrow> pystr option" where
  "generate_ai_insights env result =
     (case result of
        Failure e \<Rightarrow> None
      | Success p c r n \<Rightarrow>
          (case chat_completion env insight_system_message (insight_prompt p c r n) 200 of
             Inl e \<Rightarrow> None
           | Inr completion \<Rightarrow> Some (strip completion)))"

record slack_response =
  response_type :: pystr
  text_field :: pystr

text \<open>The line that \<open>format_slack_response\<close> puts into \<open>warning\<close> above the threshold.\<close>

definition threshold_warning :: pystr where
  "threshold_warning =
     nl @ warning_sign @ u '' *Warning:* Loss ratio exceeds '' @ LOSS_RATIO_THRESHOLD_str @
     u ''% threshold!''"

definition format_slack_response :: "env \<Rightarrow> result \<Rightarrow> pystr option \<Rightarrow> bool \<Rightarrow> slack_response" where
  "format_slack_response env result file_name include_ai =
     (case result of
        Failure err \<Rightarrow>
          (let file_info = (if truthy file_name then u '' ('' @ the file_name @ u '')'' else [])
           in \<lparr>response_type = u ''in_channel'',
               text_field = cross_mark @ u '' *Error'' @ file_info @ u '':* '' @ err\<rparr>)
      | Success p c r n \<Rightarrow>
          (let warning = (if r > LOSS_RATIO_THRESHOLD then threshold_warning else []);
               premium_formatted = u ''$'' @ fmt_comma_0f p;
               claims_formatted = u ''$'' @ fmt_comma_0f c;
               file_header = (if truthy file_name
                              then page_symbol @ u '' *Analysis of: '' @ the file_name @ u ''*'' @
                                   nl @ nl
                              else []);
               message = file_header @ chart_symbol @ u '' *Actuarial Loss Ratio Analysis*'' @
                         nl @ nl @
                         u ''*Premium:* '' @ premium_formatted @ nl @
                         u ''*Claims:* '' @ claims_formatted @ nl @
                         u ''*Loss Ratio:* '' @ fmt_1f r @ u ''%'' @ nl @
                         u ''*Policies Analyzed:* '' @ str_nat n @ warning @ nl;
               ai_insight = (if include_ai \<and> DEEPSEEK_API_KEY env \<noteq> DEEPSEEK_PLACEHOLDER
                             then generate_ai_insights env result else None)
           in \<lparr>response_type = u ''in_channel'',
               text_field = (if truthy ai_insight
                       then message @ nl @ robot_symbol @ u '' *AI Insights:*'' @ nl @ u ''_'' @
                            the ai_insight @ u ''_''
                       else message)\<rparr>))"

text \<open>
  \<open>send_message_to_channel\<close> formats the result and calls \<open>chat_postMessage\<close>; the model
  records that call (channel and text). Whether Slack then delivers it is Slack's matter:
  the code logs a failure and goes on.
\<close>

type_synonym post = "pystr \<times> pystr"

definition send_message_to_channel ::
  "env \<Rightarrow> pystr \<Rightarrow> result \<Rightarrow> pystr option \<Rightarrow> bool \<Rightarrow> post list" where
  "send_message_to_channel env channel_id result file_name include_ai =
     (let response = format_slack_response env result file_name include_ai
      in [(channel_id, text_field response)])"

section \<open>Session state and the webhook endpoint\<close>

record session =
  LAST_UPLOADED_FILE :: "pystr option"
  LAST_UPLOADED_FILE_NAME :: "pystr option"
  LAST_ANALYSIS_RESULT :: "result option"

text \<open>
  The event payload, with the fields the handler reads. A field is \<open>None\<close> when the
  payload does not have it; where present, a field has the type of Slack's event schema.
  The headers and the form of a request are dictionaries from names to strings (header
  names in the spelling the handler asks for).
\<close>

record file_info =
  url_private :: "pystr option"
  name :: "pystr option"

record event =
  etype :: "pystr option"
  files :: "file_info list option"
  channel :: "pystr option"

record payload =
  challenge :: "pystr option"
  event :: "event option"

record request =
  json :: payload
  headers :: "(pystr \<times> pystr) list"
  form :: "(pystr \<times> pystr) list"

text \<open>The background thread that \<open>explain_command\<close> starts: the question and the channel.\<close>

datatype task = GenerateAndPostAnswer pystr "pystr option"

text \<open>
  What a handler does: its reply (the JSON object of the response, or the exception that
  left the handler), the session state it leaves, the messages it posts and the threads it
  starts. Log output (\<open>print\<close>) is not recorded.
\<close>

record outcome =
  reply :: "exn + (pystr \<times> pystr) list"
  state :: session
  posts :: "post list"
  threads :: "task list"

definition status_ok :: "(pystr \<times> pystr) list" where
  "status_ok = [(u ''status'', u ''ok'')]"

definition jsonify :: "slack_response \<Rightarrow> (pystr \<times> pystr) list" where
  "jsonify r = [(u ''response_type'', response_type r), (u ''text'', text_field r)]"

definition not_excel_error :: "pystr \<Rightarrow> pystr" where
  "not_excel_error file_name =
     u ''Please upload an Excel file (.xlsx or .xls). You uploaded: '' @ file_name"

definition slack_events :: "env \<Rightarrow> session \<Rightarrow> request \<Rightarrow> outcome" where
  "slack_events env st req =
     (let data = json req in
      case challenge data of
        Some c \<Rightarrow> \<lparr>reply = Inr [(u ''challenge'', c)], state = st, posts = [], threads = []\<rparr>
      | None \<Rightarrow>
          if truthy (map_of (headers req) (u ''X-Slack-Retry-Num''))
          then \<lparr>reply = Inr status_ok, state = st, posts = [], threads = []\<rparr>
          else
            (let ev = (case event data of
                         None \<Rightarrow> \<lparr>etype = None, files = None, channel = None\<rparr>
                       | Some e \<Rightarrow> e);
                 event_type = etype ev
             in if event_type = Some (u ''message'') \<and> files ev \<noteq> None then
                  (case the (files ev) of
                     [] \<Rightarrow> \<lparr>reply = Inl (OtherException (u ''list index out of range'')),
                            state = st, posts = [], threads = []\<rparr>
                   | file_info # _ \<Rightarrow>
                       (let file_url = url_private file_info;
                            file_name = (case name file_info of
                                           None \<Rightarrow> u ''unknown'' | Some n \<Rightarrow> n)
                        in if endswith file_name (u ''.xlsx'') \<or> endswith file_name (u ''.xls'')
                           then
                             (let st1 = st\<lparr>LAST_UPLOADED_FILE := file_url,
                                            LAST_UPLOADED_FILE_NAME := Some file_name\<rparr>
                              in case calculate_loss_ratio env file_url of
                                   Inl e \<Rightarrow> \<lparr>reply = Inl e, state = st1, posts = [],
                                              threads = []\<rparr>
                                 | Inr result \<Rightarrow>
                                     (let st2 = st1\<lparr>LAST_ANALYSIS_RESULT := Some result\<rparr>
                                      in case channel ev of
                                           None \<Rightarrow>
                                             \<lparr>reply = Inl (KeyError (sq @ u ''channel'' @ sq)),
                                              state = st2, posts = [], threads = []\<rparr>
                                         | Some ch \<Rightarrow>
                                             \<lparr>reply = Inr status_ok, state = st2,
                                              posts = send_message_to_channel env ch result
                                                        (Some file_name) True,
                                              threads = []\<rparr>))
                           else
                             (let error_result = Failure (not_excel_error file_name)
                              in case channel ev of
                                   None \<Rightarrow>
                                     \<lparr>reply = Inl (KeyError (sq @ u ''channel'' @ sq)),
                                      state = st, posts = [], threads = []\<rparr>
                                 | Some ch \<Rightarrow>
                                     \<lparr>reply = Inr status_ok, state = st,
                                      posts = send_message_to_channel env ch error_result
                                                None False,
                                      threads = []\<rparr>)))
                else \<lparr>reply = Inr status_ok, state = st, posts = [], threads = []\<rparr>))"

definition lossratio_command :: "env \<Rightarrow> session \<Rightarrow> outcome" where
  "lossratio_command env st =
     (let run = (if truthy (LAST_UPLOADED_FILE st)
                 then (calculate_loss_ratio env (LAST_UPLOADED_FILE st),
                       LAST_UPLOADED_FILE_NAME st)
                 else (calculate_loss_ratio env None, None))
      in case fst run of
           Inl e \<Rightarrow> \<lparr>reply = Inl e, state = st, posts = [], threads = []\<rparr>
         | Inr result \<Rightarrow>
             \<lparr>reply = Inr (jsonify (format_slack_response env result (snd run) True)),
              state = st\<lparr>LAST_ANALYSIS_RESULT := Some result\<rparr>,
              posts = [], threads = []\<rparr>)"

definition ask_a_question :: "(pystr \<times> pystr) list" where
  "ask_a_question =
     [(u ''response_type'', u ''ephemeral''),
      (u ''text'', question_mark_symbol @
         u '' Please ask a question! Example: `/explain why is the loss ratio high?`'')]"

definition no_analysis_data :: "(pystr \<times> pystr) list" where
  "no_analysis_data =
     [(u ''response_type'', u ''ephemeral''),
      (u ''text'', warning_sign @
         u '' No analysis data available. Please upload a file or run `/lossratio` first.'')]"

definition explain_command :: "session \<Rightarrow> request \<Rightarrow> outcome" where
  "explain_command st req =
     (let question = strip (case map_of (form req) (u ''text'') of None \<Rightarrow> [] | Some t \<Rightarrow> t);
          channel_id = map_of (form req) (u ''channel_id'')
      in if question = [] then
           \<lparr>reply = Inr ask_a_question, state = st, posts = [], threads = []\<rparr>
         else if \<not> (case LAST_ANALYSIS_RESULT st of None \<Rightarrow> False | Some r \<Rightarrow> success r) then
           \<lparr>reply = Inr no_analysis_data, state = st, posts = [], threads = []\<rparr>
         else
           \<lparr>reply = Inr [(u ''response_type'', u ''in_channel''),
                          (u ''text'', question_mark_symbol @ u '' *Question:* '' @ question @
                             nl @ nl @ robot_symbol @ u '' _Thinking..._'')],
            state = st, posts = [],
            threads = [GenerateAndPostAnswer question channel_id]\<rparr>)"

section \<open>Sample tables and environments\<close>

text \<open>
  A table with the two required columns, and environments in which every read yields a
  given table (or raises a given exception). In \<open>local_env\<close> no completion API is
  configured and every download fails; in \<open>ai_env\<close> the completion API answers.
\<close>

definition table_of :: "rat list \<Rightarrow> rat list \<Rightarrow> dataframe" where
  "table_of ps cs = \<lparr>series = [(u ''Premium'', ps), (u ''Claims'', cs)], nrows = length ps\<rparr>"

definition local_env :: "exn + dataframe \<Rightarrow> env" where
  "local_env t =
     \<lparr>SLACK_BOT_TOKEN = u ''xoxb-test'', DEEPSEEK_API_KEY = DEEPSEEK_PLACEHOLDER,
      requests_get = (\<lambda>url hs. Inl (RequestException (u ''connection refused''))),
      read_excel_bytes = (\<lambda>b. t), read_excel_path = (\<lambda>p. t),
      chat_completion = (\<lambda>s p n. Inl (OtherException (u ''not configured'')))\<rparr>"


section \<open>The ratio calculator: properties\<close>

lemma in_columns_iff: "col \<in> set (df_columns df) \<longleftrightarrow> map_of (series df) col \<noteq> None"
  by (simp add: df_columns_def map_of_eq_None_iff)

lemma calculate_after_load:
  "load_table env file_source = Inr df \<Longrightarrow>
   calculate_loss_ratio env file_source =
     (case ratio_of_table df of Inl e \<Rightarrow> except_clauses e | Inr r \<Rightarrow> Inr r)"
  by (simp add: calculate_loss_ratio_def try_block_def)

lemma ratio_of_table_present:
  assumes "map_of (series df) (u ''Premium'') = Some ps"
    and "map_of (series df) (u ''Claims'') = Some cs"
  shows "ratio_of_table df =
     Inr (Success (sum_list ps) (sum_list cs)
            (if sum_list ps > 0 then sum_list cs / sum_list ps * 100 else 0) (nrows df))"
  using assms by (simp add: ratio_of_table_def in_columns_iff getitem_def Let_def)

lemma load_local: "load_table (local_env (Inr df)) None = Inr df"
  by (simp add: load_table_def local_env_def)

lemma map_of_table:
  "map_of (series (table_of ps cs)) (u ''Premium'') = Some ps"
  "map_of (series (table_of ps cs)) (u ''Claims'') = Some cs"
  by (simp_all add: table_of_def u_def)

lemma sample_ratio:
  "calculate_loss_ratio (local_env (Inr (table_of ps cs))) None =
     Inr (Success (sum_list ps) (sum_list cs)
            (if sum_list ps > 0 then sum_list cs / sum_list ps * 100 else 0) (length ps))"
  by (simp add: calculate_after_load [OF load_local] ratio_of_table_present [OF map_of_table])
     (simp add: table_of_def)

lemma except_clauses_returns: "\<exists>r. except_clauses e = Inr r"
  by (cases e) simp_all

lemma calculate_returns: "\<exists>r. calculate_loss_ratio env file_source = Inr r"
  using except_clauses_returns
  by (simp add: calculate_loss_ratio_def split: sum.split)

lemma calculate_falsy:
  "\<not> truthy file_source \<Longrightarrow> calculate_loss_ratio env file_source = calculate_loss_ratio env None"
  by (simp add: calculate_loss_ratio_def try_block_def load_table_def)









text \<open>
  C3: for a table that lacks Premium or Claims the calculator returns a failure, never a
  numeric result, and the list of names in the error text is exactly the list of the
  absent columns: \<open>Premium, Claims\<close> when both are absent, else the one that is.
\<close>

theorem missing_columns_failure:
  assumes "load_table env file_source = Inr df"
    and "u ''Premium'' \<notin> set (df_columns df) \<or> u ''Claims'' \<notin> set (df_columns df)"
  shows "calculate_loss_ratio env file_source =
     Inr (Failure
       (u ''Missing required columns: '' @
        (if u ''Premium'' \<notin> set (df_columns df) \<and> u ''Claims'' \<notin> set (df_columns df)
         then u ''Premium, Claims''
         else if u ''Premium'' \<notin> set (df_columns df) then u ''Premium'' else u ''Claims'') @
        u ''. File must have '' @ dq @ u ''Premium'' @ dq @ u '' and '' @ dq @ u ''Claims'' @ dq @
        u '' columns.''))"
  using assms(2)
  by (auto simp: calculate_after_load [OF assms(1)] ratio_of_table_def Let_def
      missing_columns_error_def u_def)

theorem missing_columns_failure_witness:
  "calculate_loss_ratio
     (local_env (Inr \<lparr>series = [(u ''Policy'', [1, 2]), (u ''Premium'', [1000, 2000])],
                      nrows = 2\<rparr>)) None =
   Inr (Failure
     (u ''Missing required columns: Claims. File must have '' @ dq @ u ''Premium'' @ dq @
      u '' and '' @ dq @ u ''Claims'' @ dq @ u '' columns.''))"
  using missing_columns_failure [OF load_local,
      of "\<lparr>series = [(u ''Policy'', [1, 2]), (u ''Premium'', [1000, 2000])], nrows = 2\<rparr>"]
  by (simp add: df_columns_def u_def)

text \<open>
  C4: for every source and every behaviour of the HTTP client and of the spreadsheet
  reader, \<open>calculate_loss_ratio\<close> returns a value: no exception leaves it. Every
  exception raised inside the \<open>try\<close> block (file not found, missing column, download
  failure, anything else) comes back as a failure result with a non-empty error text, and
  every failure result has a non-empty error text.
\<close>

theorem calculate_loss_ratio_no_fault:
  "(\<exists>r. calculate_loss_ratio env file_source = Inr r \<and> (\<not> success r \<longrightarrow> error r \<noteq> [])) \<and>
   (\<forall>e. try_block env file_source = Inl e \<longrightarrow>
      (\<exists>msg. msg \<noteq> [] \<and> calculate_loss_ratio env file_source = Inr (Failure msg)))"
proof (intro conjI allI impI)
  fix e
  assume "try_block env file_source = Inl e"
  then show "\<exists>msg. msg \<noteq> [] \<and> calculate_loss_ratio env file_source = Inr (Failure msg)"
    by (cases e) (simp_all add: calculate_loss_ratio_def u_def)
next
  show "\<exists>r. calculate_loss_ratio env file_source = Inr r \<and> (\<not> success r \<longrightarrow> error r \<noteq> [])"
  proof (cases "try_block env file_source")
    case (Inl e)
    then show ?thesis
      by (cases e) (simp_all add: calculate_loss_ratio_def u_def)
  next
    case (Inr r)
    then obtain df where "ratio_of_table df = Inr r"
      by (auto simp: try_block_def split: sum.splits)
    then have "\<not> success r \<longrightarrow> error r \<noteq> []"
      by (auto simp: ratio_of_table_def Let_def missing_columns_error_def u_def getitem_def
          split: if_splits option.splits)
    with Inr show ?thesis by (simp add: calculate_loss_ratio_def)
  qed
qed

theorem calculate_loss_ratio_no_fault_witness:
  "try_block (local_env (Inl (FileNotFoundError (u ''No such file or directory'')))) None =
     Inl (FileNotFoundError (u ''No such file or directory'')) \<and>
   calculate_loss_ratio (local_env (Inl (FileNotFoundError (u ''No such file or directory''))))
     None = Inr (Failure (u ''Excel file not found'')) \<and>
   try_block (local_env (Inr (table_of [1] [1]))) (Some (u ''https://files.slack.com/a.xlsx'')) =
     Inl (RequestException (u ''connection refused'')) \<and>
   calculate_loss_ratio (local_env (Inr (table_of [1] [1])))
     (Some (u ''https://files.slack.com/a.xlsx'')) =
     Inr (Failure (u ''Failed to download file: connection refused''))"
proof -
  have a: "try_block (local_env (Inl (FileNotFoundError (u ''No such file or directory'')))) None =
     Inl (FileNotFoundError (u ''No such file or directory''))"
    by (simp add: try_block_def load_table_def local_env_def)
  have b: "try_block (local_env (Inr (table_of [1] [1])))
      (Some (u ''https://files.slack.com/a.xlsx'')) =
     Inl (RequestException (u ''connection refused''))"
    by (simp add: try_block_def load_table_def local_env_def startswith_def u_def)
  from calculate_loss_ratio_no_fault
    [of "local_env (Inl (FileNotFoundError (u ''No such file or directory'')))" None]
    calculate_loss_ratio_no_fault
    [of "local_env (Inr (table_of [1] [1]))" "Some (u ''https://files.slack.com/a.xlsx'')"]
  show ?thesis
    unfolding calculate_loss_ratio_def a b by (simp add: u_def)
qed

section \<open>The message formatter: properties\<close>























section \<open>The webhook endpoint: properties\<close>

text \<open>
  C6: a payload with a challenge field is answered with that challenge, unchanged, and
  nothing else happens: the three fields of the session state stay as they are, no message
  is posted and no thread is started (whatever the headers and the rest of the payload).
\<close>

theorem challenge_echo:
  assumes "challenge (json req) = Some c"
  shows "slack_events env st req =
           \<lparr>reply = Inr [(u ''challenge'', c)], state = st, posts = [], threads = []\<rparr>"
  using assms by (simp add: slack_events_def)

theorem challenge_echo_witness:
  "slack_events (local_env (Inr (table_of [1000] [100])))
     \<lparr>LAST_UPLOADED_FILE = Some (u ''https://files.slack.com/a.xlsx''),
      LAST_UPLOADED_FILE_NAME = Some (u ''a.xlsx''),
      LAST_ANALYSIS_RESULT = Some (Success 1000 100 10 1)\<rparr>
     \<lparr>json = \<lparr>challenge = Some (u ''abc123''), event = None\<rparr>,
      headers = [(u ''X-Slack-Retry-Num'', u ''1'')], form = []\<rparr> =
   \<lparr>reply = Inr [(u ''challenge'', u ''abc123'')],
    state = \<lparr>LAST_UPLOADED_FILE = Some (u ''https://files.slack.com/a.xlsx''),
             LAST_UPLOADED_FILE_NAME = Some (u ''a.xlsx''),
             LAST_ANALYSIS_RESULT = Some (Success 1000 100 10 1)\<rparr>,
    posts = [], threads = []\<rparr>"
  by (rule challenge_echo) simp

text \<open>
  C7: a file-share event (a request that is neither a verification handshake nor a retry,
  whose event is a message with files) whose first file has a name that ends neither in
  \<open>.xlsx\<close> nor in \<open>.xls\<close> leaves the three fields of the session state unchanged, and
  the handler posts one error-formatted message to the channel of the event: the cross
  mark, \<open>*Error:*\<close> and the request for an Excel file. A file without a name counts as
  \<open>unknown\<close>.
\<close>

theorem non_spreadsheet_upload:
  assumes "challenge (json req) = None"
    and "\<not> truthy (map_of (headers req) (u ''X-Slack-Retry-Num''))"
    and "event (json req) = Some ev"
    and "etype ev = Some (u ''message'')"
    and "files ev = Some (file_info # others)"
    and "file_name = (case name file_info of None \<Rightarrow> u ''unknown'' | Some n \<Rightarrow> n)"
    and "\<not> endswith file_name (u ''.xlsx'')" and "\<not> endswith file_name (u ''.xls'')"
  shows "state (slack_events env st req) = st \<and>
         (\<forall>ch. channel ev = Some ch \<longrightarrow>
            reply (slack_events env st req) = Inr status_ok \<and>
            posts (slack_events env st req) =
              [(ch, cross_mark @
                    u '' *Error:* Please upload an Excel file (.xlsx or .xls). You uploaded: '' @
                    file_name)])"
  using assms
  by (auto simp: slack_events_def Let_def send_message_to_channel_def format_slack_response_def
      not_excel_error_def u_def split: option.splits)

theorem non_spreadsheet_upload_witness:
  "state (slack_events (local_env (Inr (table_of [1000] [100])))
     \<lparr>LAST_UPLOADED_FILE = Some (u ''https://files.slack.com/a.xlsx''),
      LAST_UPLOADED_FILE_NAME = Some (u ''a.xlsx''),
      LAST_ANALYSIS_RESULT = Some (Success 1000 100 10 1)\<rparr>
     \<lparr>json = \<lparr>challenge = None,
              event = Some \<lparr>etype = Some (u ''message''),
                            files = Some [\<lparr>url_private = Some (u ''https://files.slack.com/b.csv''),
                                           name = Some (u ''claims.csv'')\<rparr>],
                            channel = Some (u ''C123'')\<rparr>\<rparr>,
      headers = [], form = []\<rparr>) =
     \<lparr>LAST_UPLOADED_FILE = Some (u ''https://files.slack.com/a.xlsx''),
      LAST_UPLOADED_FILE_NAME = Some (u ''a.xlsx''),
      LAST_ANALYSIS_RESULT = Some (Success 1000 100 10 1)\<rparr> \<and>
   posts (slack_events (local_env (Inr (table_of [1000] [100])))
     \<lparr>LAST_UPLOADED_FILE = Some (u ''https://files.slack.com/a.xlsx''),
      LAST_UPLOADED_FILE_NAME = Some (u ''a.xlsx''),
      LAST_ANALYSIS_RESULT = Some (Success 1000 100 10 1)\<rparr>
     \<lparr>json = \<lparr>challenge = None,
              event = Some \<lparr>etype = Some (u ''message''),
                            files = Some [\<lparr>url_private = Some (u ''https://files.slack.com/b.csv''),
                                           name = Some (u ''claims.csv'')\<rparr>],
                            channel = Some (u ''C123'')\<rparr>\<rparr>,
      headers = [], form = []\<rparr>) =
     [(u ''C123'', cross_mark @
         u '' *Error:* Please upload an Excel file (.xlsx or .xls). You uploaded: '' @
         u ''claims.csv'')]"
  using non_spreadsheet_upload
    [of "\<lparr>json = \<lparr>challenge = None,
              event = Some \<lparr>etype = Some (u ''message''),
                            files = Some [\<lparr>url_private = Some (u ''https://files.slack.com/b.csv''),
                                           name = Some (u ''claims.csv'')\<rparr>],
                            channel = Some (u ''C123'')\<rparr>\<rparr>,
      headers = [], form = []\<rparr>"
      "\<lparr>etype = Some (u ''message''),
        files = Some [\<lparr>url_private = Some (u ''https://files.slack.com/b.csv''),
                       name = Some (u ''claims.csv'')\<rparr>],
        channel = Some (u ''C123'')\<rparr>"
      "\<lparr>url_private = Some (u ''https://files.slack.com/b.csv''), name = Some (u ''claims.csv'')\<rparr>"
      "[]" "u ''claims.csv''" "local_env (Inr (table_of [1000] [100]))"
      "\<lparr>LAST_UPLOADED_FILE = Some (u ''https://files.slack.com/a.xlsx''),
      LAST_UPLOADED_FILE_NAME = Some (u ''a.xlsx''),
      LAST_ANALYSIS_RESULT = Some (Success 1000 100 10 1)\<rparr>"]
  by (simp add: endswith_def u_def suffix_def Cons_eq_append_conv)

lemma strip_whitespace:
  assumes "\<forall>c\<in>set t. is_space c"
  shows "strip t = []"
proof -
  from assms have h: "dropWhile is_space t = []"
    by (induction t) auto
  show ?thesis
    unfolding strip_def h by simp
qed

text \<open>
  C8: an Explain request whose text is empty (or absent) gets the prompt for a question as
  its immediate response; no thread is started, no message is posted and the session state
  is unchanged.
\<close>

theorem explain_empty_text:
  assumes "map_of (form req) (u ''text'') = None \<or> map_of (form req) (u ''text'') = Some []"
  shows "explain_command st req =
           \<lparr>reply = Inr ask_a_question, state = st, posts = [], threads = []\<rparr>"
  using assms by (auto simp: explain_command_def strip_def)

theorem explain_empty_text_witness:
  "explain_command \<lparr>LAST_UPLOADED_FILE = None, LAST_UPLOADED_FILE_NAME = None,
                    LAST_ANALYSIS_RESULT = Some (Success 1000 100 10 1)\<rparr>
     \<lparr>json = \<lparr>challenge = None, event = None\<rparr>, headers = [],
      form = [(u ''channel_id'', u ''C123''), (u ''text'', [])]\<rparr> =
   \<lparr>reply = Inr ask_a_question,
    state = \<lparr>LAST_UPLOADED_FILE = None, LAST_UPLOADED_FILE_NAME = None,
             LAST_ANALYSIS_RESULT = Some (Success 1000 100 10 1)\<rparr>,
    posts = [], threads = []\<rparr>"
  by (rule explain_empty_text) (simp add: u_def)

text \<open>
  C10: an Explain request whose text consists of whitespace characters only is handled as
  one with empty text: the stripped text is empty, the response is the prompt for a
  question and no thread is started.
\<close>

theorem explain_whitespace_text:
  assumes "map_of (form req) (u ''text'') = Some t" and "\<forall>c\<in>set t. is_space c"
  shows "strip t = [] \<and>
         explain_command st req =
           \<lparr>reply = Inr ask_a_question, state = st, posts = [], threads = []\<rparr>"
  using assms by (simp add: explain_command_def strip_whitespace)

theorem explain_whitespace_text_witness:
  "is_space 32 \<and> is_space 9 \<and> is_space 10 \<and> is_space 0xA0 \<and> is_space 0x3000 \<and>
   strip [32, 9, 10, 0xA0, 0x3000] = [] \<and>
   explain_command \<lparr>LAST_UPLOADED_FILE = None, LAST_UPLOADED_FILE_NAME = None,
                    LAST_ANALYSIS_RESULT = Some (Success 1000 100 10 1)\<rparr>
     \<lparr>json = \<lparr>challenge = None, event = None\<rparr>, headers = [],
      form = [(u ''channel_id'', u ''C123''), (u ''text'', [32, 9, 10, 0xA0, 0x3000])]\<rparr> =
   \<lparr>reply = Inr ask_a_question,
    state = \<lparr>LAST_UPLOADED_FILE = None, LAST_UPLOADED_FILE_NAME = None,
             LAST_ANALYSIS_RESULT = Some (Success 1000 100 10 1)\<rparr>,
    posts = [], threads = []\<rparr>"
proof -
  have sp: "\<forall>c\<in>set [32, 9, 10, 0xA0, 0x3000]. is_space c"
    by (simp add: is_space_def)
  have tx: "map_of (form \<lparr>json = \<lparr>challenge = None, event = None\<rparr>, headers = [],
      form = [(u ''channel_id'', u ''C123''), (u ''text'', [32, 9, 10, 0xA0, 0x3000])]\<rparr>)
      (u ''text'') = Some [32, 9, 10, 0xA0, 0x3000]"
    by (simp add: u_def)
  from explain_whitespace_text [OF tx sp] sp show ?thesis by simp
qed

text \<open>
  C9: the Analysis command stores the result of a new run of the calculator in the session
  state, leaving the other two fields as they are. The run is on the stored file when
  there is one (a local path is read as such), and on the configured default source
  \<open>EXCEL_FILE\<close> when there is none (\<open>None\<close> or an empty locator, for which the
  calculator itself falls back to the default).
\<close>

theorem lossratio_command_source:
  "\<exists>result.
     calculate_loss_ratio env (LAST_UPLOADED_FILE st) = Inr result \<and>
     state (lossratio_command env st) = st\<lparr>LAST_ANALYSIS_RESULT := Some result\<rparr> \<and>
     (\<not> truthy (LAST_UPLOADED_FILE st) \<longrightarrow>
        load_table env (LAST_UPLOADED_FILE st) = read_excel_path env EXCEL_FILE) \<and>
     (\<forall>f. LAST_UPLOADED_FILE st = Some f \<and> f \<noteq> [] \<and> \<not> startswith f (u ''http'') \<longrightarrow>
        load_table env (LAST_UPLOADED_FILE st) = read_excel_path env f)"
proof -
  obtain result where r: "calculate_loss_ratio env (LAST_UPLOADED_FILE st) = Inr result"
    using calculate_returns by blast
  have "state (lossratio_command env st) = st\<lparr>LAST_ANALYSIS_RESULT := Some result\<rparr>"
  proof (cases "truthy (LAST_UPLOADED_FILE st)")
    case True
    with r show ?thesis by (simp add: lossratio_command_def)
  next
    case False
    with r calculate_falsy [OF False, of env] show ?thesis
      by (simp add: lossratio_command_def)
  qed
  moreover have "\<not> truthy (LAST_UPLOADED_FILE st) \<longrightarrow>
      load_table env (LAST_UPLOADED_FILE st) = read_excel_path env EXCEL_FILE"
    by (simp add: load_table_def)
  moreover have "\<forall>f. LAST_UPLOADED_FILE st = Some f \<and> f \<noteq> [] \<and> \<not> startswith f (u ''http'') \<longrightarrow>
      load_table env (LAST_UPLOADED_FILE st) = read_excel_path env f"
    by (simp add: load_table_def)
  ultimately show ?thesis using r by blast
qed

theorem lossratio_command_source_witness:
  "state (lossratio_command (local_env (Inr (table_of [1000, 2000] [500, 1900])))
     \<lparr>LAST_UPLOADED_FILE = None, LAST_UPLOADED_FILE_NAME = None,
      LAST_ANALYSIS_RESULT = Some (Failure (u ''Excel file not found''))\<rparr>) =
     \<lparr>LAST_UPLOADED_FILE = None, LAST_UPLOADED_FILE_NAME = None,
      LAST_ANALYSIS_RESULT = Some (Success 3000 2400 80 2)\<rparr> \<and>
   load_table (local_env (Inr (table_of [1000, 2000] [500, 1900]))) None =
     read_excel_path (local_env (Inr (table_of [1000, 2000] [500, 1900]))) EXCEL_FILE \<and>
   state (lossratio_command (local_env (Inr (table_of [1000] [100])))
     \<lparr>LAST_UPLOADED_FILE = Some (u ''book.xlsx''), LAST_UPLOADED_FILE_NAME = Some (u ''book.xlsx''),
      LAST_ANALYSIS_RESULT = None\<rparr>) =
     \<lparr>LAST_UPLOADED_FILE = Some (u ''book.xlsx''), LAST_UPLOADED_FILE_NAME = Some (u ''book.xlsx''),
      LAST_ANALYSIS_RESULT = Some (Success 1000 100 10 1)\<rparr> \<and>
   load_table (local_env (Inr (table_of [1000] [100]))) (Some (u ''book.xlsx'')) =
     read_excel_path (local_env (Inr (table_of [1000] [100]))) (u ''book.xlsx'')"
proof -
  have b: "\<not> startswith (u ''book.xlsx'') (u ''http'')" "u ''book.xlsx'' \<noteq> []"
    by (simp_all add: startswith_def u_def)
  have a: "calculate_loss_ratio (local_env (Inr (table_of [1000] [100]))) (Some (u ''book.xlsx'')) =
      Inr (Success 1000 100 10 1)"
  proof -
    have "load_table (local_env (Inr (table_of [1000] [100]))) (Some (u ''book.xlsx'')) =
        Inr (table_of [1000] [100])"
      using b by (simp add: load_table_def local_env_def)
    then show ?thesis
      by (simp add: calculate_after_load ratio_of_table_present [OF map_of_table])
         (simp add: table_of_def)
  qed
  from lossratio_command_source [of "local_env (Inr (table_of [1000, 2000] [500, 1900]))"
      "\<lparr>LAST_UPLOADED_FILE = None, LAST_UPLOADED_FILE_NAME = None,
        LAST_ANALYSIS_RESULT = Some (Failure (u ''Excel file not found''))\<rparr>"]
    lossratio_command_source [of "local_env (Inr (table_of [1000] [100]))"
      "\<lparr>LAST_UPLOADED_FILE = Some (u ''book.xlsx''),
        LAST_UPLOADED_FILE_NAME = Some (u ''book.xlsx''), LAST_ANALYSIS_RESULT = None\<rparr>"]
  show ?thesis
    using b by (auto simp: sample_ratio a)
qed

end
